theory Spec2Isabelle
  imports Complex_Main
begin

section \<open>LFO effects tool (src/tools/LFOEffects.tsx)\<close>

text \<open>
  JavaScript numbers are modelled as \<^typ>\<open>real\<close>: arithmetic, comparison and
  \<open>Math.sin\<close> are read as exact, rounding of IEEE doubles is not part of the model.
\<close>

subsection \<open>Web Audio objects\<close>

text \<open>
  The part of the Web Audio interface the component uses. A node carries the number it
  was created under; \<open>stop()\<close> on an oscillator that was never started throws
  \<open>InvalidStateError\<close>, a method call on \<open>null\<close> throws \<open>TypeError\<close>. The
  environment says whether an \<open>AudioContext\<close> can be constructed, in which state a new
  one starts and whether \<open>resume()\<close> succeeds.
\<close>

datatype ContextState = Suspended | Running | Closed

datatype OscStatus = Unstarted | Started | Stopped

datatype AudioError = NotSupported | ResumeRejected | InvalidStateError | TypeError

datatype Target = ToNode nat | ToGainParam nat | ToDestination

datatype AudioCall = Resume | Connect nat Target | Start nat | Stop nat

record AudioContext =
  state :: ContextState
  nodes :: nat

record OscillatorNode =
  nodeId :: nat
  frequency :: real
  type :: string
  status :: OscStatus

record GainNode =
  gainId :: nat
  gain :: real

record AudioEnv =
  audioAvailable :: bool
  newContextState :: ContextState
  resumeOk :: bool

subsection \<open>Component state (lines 6-15)\<close>

text \<open>
  The four \<open>useState\<close> cells and the \<open>useRef\<close> cells of the audio graph. A ref holds
  the object it points to; \<open>audioCalls\<close> records, in order, the calls the component has
  made on the audio graph. The sliders, which write \<open>carrierFreq\<close>, \<open>lfoRate\<close> and
  \<open>depth\<close>, and the effect that forwards them to a running graph (lines 137-143) are
  not part of the model.
\<close>

record LFO =
  carrierFreq :: real
  lfoRate :: real
  depth :: real
  isPlaying :: bool
  audioContextRef :: "AudioContext option"
  oscillatorRef :: "OscillatorNode option"
  lfoOscillatorRef :: "OscillatorNode option"
  gainNodeRef :: "GainNode option"
  lfoGainRef :: "GainNode option"
  audioCalls :: "AudioCall list"

definition initialLFO :: LFO where
  "initialLFO =
     \<lparr>carrierFreq = 440, lfoRate = 5, depth = 100, isPlaying = False,
      audioContextRef = None, oscillatorRef = None, lfoOscillatorRef = None,
      gainNodeRef = None, lfoGainRef = None, audioCalls = []\<rparr>"

subsection \<open>\<open>getEffectInfo\<close> (lines 19-42)\<close>

text \<open>
  The returned object keeps its \<open>type\<close> and \<open>gradient\<close>. The icon is left out, and of
  the description the model keeps the two sideband frequencies it prints, which only the
  second and third branch mention.
\<close>

record EffectInfo =
  type :: string
  gradient :: string
  sidebands :: "(real \<times> real) option"

definition getEffectInfo :: "LFO \<Rightarrow> EffectInfo" where
  "getEffectInfo s =
     (if lfoRate s < 20 then
        \<lparr>type = ''TREMOLO EFFECT'',
         gradient = ''linear-gradient(135deg, #00f5ff 0%, #a855f7 100%)'',
         sidebands = None\<rparr>
      else if lfoRate s < 50 then
        \<lparr>type = ''TRANSITION ZONE'',
         gradient = ''linear-gradient(135deg, #f093fb 0%, #f5576c 100%)'',
         sidebands = Some (carrierFreq s - lfoRate s, carrierFreq s + lfoRate s)\<rparr>
      else
        \<lparr>type = ''RING MODULATION'',
         gradient = ''linear-gradient(135deg, #ff6b35 0%, #f7c600 100%)'',
         sidebands = Some (carrierFreq s - lfoRate s, carrierFreq s + lfoRate s)\<rparr>)"

subsection \<open>\<open>drawWaveform\<close> (lines 47-129)\<close>

text \<open>
  Of the drawing, the model keeps the path of the waveform (lines 86-121): the
  \<open>moveTo\<close> and \<open>lineTo\<close> calls of the loop, in order. The canvas gives the width and
  the height of its bounding rectangle; \<open>drawWaveform\<close> returns early, drawing nothing,
  when there is no canvas or no 2D context.
\<close>

datatype PathCmd = MoveTo real real | LineTo real real

fun cmdX :: "PathCmd \<Rightarrow> real" where
  "cmdX (MoveTo px py) = px"
| "cmdX (LineTo px py) = px"

fun cmdY :: "PathCmd \<Rightarrow> real" where
  "cmdY (MoveTo px py) = py"
| "cmdY (LineTo px py) = py"

record Canvas =
  rectWidth :: real
  rectHeight :: real
  has2d :: bool

definition samples :: nat where
  "samples = 2000"

definition duration :: "LFO \<Rightarrow> real" where
  \<comment> \<open>\<open>const duration = lfoRate < 20 ? 1.0 : 0.1\<close>\<close>
  "duration s = (if lfoRate s < 20 then 1.0 else 0.1)"

definition centerY :: "real \<Rightarrow> real" where
  "centerY height = height / 2"

definition amplitude :: "real \<Rightarrow> real" where
  "amplitude height = height * 0.35"

definition depthNorm :: "LFO \<Rightarrow> real" where
  "depthNorm s = depth s / 100"

definition sampleTime :: "LFO \<Rightarrow> nat \<Rightarrow> real" where
  \<comment> \<open>\<open>const t = (i / samples) * duration\<close>\<close>
  "sampleTime s i = (real i / real samples) * duration s"

definition carrierWave :: "LFO \<Rightarrow> real \<Rightarrow> real" where
  \<comment> \<open>\<open>Math.sin(2 * Math.PI * carrierFreq * t)\<close>\<close>
  "carrierWave s t = sin (2 * pi * carrierFreq s * t)"

definition lfoWave :: "LFO \<Rightarrow> real \<Rightarrow> real" where
  \<comment> \<open>\<open>Math.sin(2 * Math.PI * lfoRate * t)\<close>\<close>
  "lfoWave s t = sin (2 * pi * lfoRate s * t)"

definition lfoModulator :: "LFO \<Rightarrow> real \<Rightarrow> real" where
  \<comment> \<open>\<open>1 - depthNorm + depthNorm * (lfoWave + 1) / 2\<close>\<close>
  "lfoModulator s t = 1 - depthNorm s + depthNorm s * (lfoWave s t + 1) / 2"

definition pathCmd :: "LFO \<Rightarrow> real \<Rightarrow> real \<Rightarrow> nat \<Rightarrow> PathCmd" where
  \<comment> \<open>the body of the loop for index \<open>i\<close>\<close>
  "pathCmd s width height i =
     (let t = sampleTime s i;
          px = (real i / real samples) * width;
          py = centerY height - carrierWave s t * lfoModulator s t * amplitude height
      in if i = 0 then MoveTo px py else LineTo px py)"

function waveformLoop :: "LFO \<Rightarrow> real \<Rightarrow> real \<Rightarrow> nat \<Rightarrow> PathCmd list \<Rightarrow> PathCmd list" where
  "waveformLoop s width height i path =
     (if i < samples
      then waveformLoop s width height (i + 1) (path @ [pathCmd s width height i])
      else path)"
  by pat_completeness auto
termination
  by (relation "measure (\<lambda>(s, width, height, i, path). samples - i)") auto

declare waveformLoop.simps [simp del]

definition drawWaveform :: "Canvas option \<Rightarrow> LFO \<Rightarrow> PathCmd list option" where
  "drawWaveform canvas s =
     (case canvas of
        None \<Rightarrow> None
      | Some c \<Rightarrow>
          if \<not> has2d c then None
          else Some (waveformLoop s (rectWidth c) (rectHeight c) 0 []))"

subsection \<open>\<open>playSound\<close> and \<open>stopSound\<close> (lines 145-204)\<close>

text \<open>
  A handler either returns, or throws with the state it has reached: \<open>stateOf\<close> reads
  the state in both cases.
\<close>

datatype Outcome = Returns LFO | Throws AudioError LFO

fun stateOf :: "Outcome \<Rightarrow> LFO" where
  "stateOf (Returns s) = s"
| "stateOf (Throws e s) = s"

definition buildGraph :: "real \<Rightarrow> real \<Rightarrow> real \<Rightarrow> LFO \<Rightarrow> AudioContext \<Rightarrow> LFO" where
  \<comment> \<open>lines 157-191: the four nodes, their connections, the refs and the two starts;
      \<open>start()\<close> reaches the oscillators the refs already hold. \<open>carrier\<close>, \<open>rate\<close>
      and \<open>dep\<close> are the values of \<open>carrierFreq\<close>, \<open>lfoRate\<close> and \<open>depth\<close> the call
      closed over, \<open>s\<close> is the state the lines run in\<close>
  "buildGraph carrier rate dep s ctx =
     (let n = nodes ctx;
          oscillator = \<lparr>nodeId = n, frequency = carrier, type = ''sine'',
                        status = Unstarted\<rparr>;
          lfoOscillator = \<lparr>nodeId = n + 1, frequency = rate, type = ''sine'',
                           status = Unstarted\<rparr>;
          gainNode = \<lparr>gainId = n + 2, gain = 0.3\<rparr>;
          lfoGain = \<lparr>gainId = n + 3, gain = (dep / 100) * 0.3\<rparr>
      in s\<lparr>audioContextRef := Some (ctx\<lparr>nodes := n + 4\<rparr>),
            oscillatorRef := Some (oscillator\<lparr>status := Started\<rparr>),
            lfoOscillatorRef := Some (lfoOscillator\<lparr>status := Started\<rparr>),
            gainNodeRef := Some gainNode,
            lfoGainRef := Some lfoGain,
            audioCalls := audioCalls s @
              [Connect (nodeId lfoOscillator) (ToNode (gainId lfoGain)),
               Connect (gainId lfoGain) (ToGainParam (gainId gainNode)),
               Connect (nodeId oscillator) (ToNode (gainId gainNode)),
               Connect (gainId gainNode) ToDestination,
               Start (nodeId oscillator),
               Start (nodeId lfoOscillator)],
            isPlaying := True\<rparr>)"

definition startGraph :: "LFO \<Rightarrow> AudioContext \<Rightarrow> LFO" where
  \<comment> \<open>lines 157-191 run in the state the call started in\<close>
  "startGraph s ctx = buildGraph (carrierFreq s) (lfoRate s) (depth s) s ctx"

text \<open>
  \<open>playSound\<close> is an \<open>async\<close> function. With a suspended context it calls
  \<open>resume()\<close> and suspends at the \<open>await\<close> of line 154; other handlers, a second
  \<open>playSound\<close> among them, can run before it continues, and \<open>isPlaying\<close> is set at
  line 191 only. \<open>playSoundStart\<close> is the call up to that point, \<open>playSoundResumed\<close>
  the rest of it, once \<open>resume()\<close> has settled.
\<close>

datatype PlayStep = Finished Outcome | Awaiting LFO

definition resumeOrStart :: "LFO \<Rightarrow> AudioContext \<Rightarrow> PlayStep" where
  \<comment> \<open>from line 153 on, with \<open>ctx\<close> the context \<open>audioContextRef\<close> holds in \<open>s\<close>\<close>
  "resumeOrStart s ctx =
     (if state ctx = Suspended
      then Awaiting (s\<lparr>audioCalls := audioCalls s @ [Resume]\<rparr>)
      else Finished (Returns (startGraph s ctx)))"

definition playSoundStart :: "AudioEnv \<Rightarrow> LFO \<Rightarrow> PlayStep" where
  \<comment> \<open>line 146 is the guard; lines 149-151 create the context on first use\<close>
  "playSoundStart env s =
     (if isPlaying s then Finished (Returns s)
      else case audioContextRef s of
        Some ctx \<Rightarrow> resumeOrStart s ctx
      | None \<Rightarrow>
          if audioAvailable env
          then resumeOrStart
                 (s\<lparr>audioContextRef := Some \<lparr>state = newContextState env, nodes = 0\<rparr>\<rparr>)
                 \<lparr>state = newContextState env, nodes = 0\<rparr>
          else Finished (Throws NotSupported s))"

definition playSoundResumed :: "AudioEnv \<Rightarrow> LFO \<Rightarrow> LFO \<Rightarrow> Outcome" where
  \<comment> \<open>lines 155-191 after the \<open>await\<close>: \<open>c\<close> is the state the call started in, \<open>s\<close>
      the state in which it continues; line 157 reads the context from the ref again\<close>
  "playSoundResumed env c s =
     (if \<not> resumeOk env then Throws ResumeRejected s
      else case audioContextRef s of
        None \<Rightarrow> Throws TypeError s
      | Some ctx \<Rightarrow>
          Returns (buildGraph (carrierFreq c) (lfoRate c) (depth c) s
                     (ctx\<lparr>state := Running\<rparr>)))"

definition playSound :: "AudioEnv \<Rightarrow> LFO \<Rightarrow> Outcome" where
  \<comment> \<open>a call of \<open>playSound\<close> that no other handler interleaves with\<close>
  "playSound env s =
     (case playSoundStart env s of
        Finished out \<Rightarrow> out
      | Awaiting s1 \<Rightarrow> playSoundResumed env s s1)"

definition stopOscillator :: "LFO \<Rightarrow> Outcome" where
  \<comment> \<open>lines 195-198\<close>
  "stopOscillator s =
     (case oscillatorRef s of
        None \<Rightarrow> Returns s
      | Some osc \<Rightarrow>
          if status osc = Unstarted then Throws InvalidStateError s
          else Returns (s\<lparr>audioCalls := audioCalls s @ [Stop (nodeId osc)],
                          oscillatorRef := None\<rparr>))"

definition stopLfoOscillator :: "LFO \<Rightarrow> Outcome" where
  \<comment> \<open>lines 199-202\<close>
  "stopLfoOscillator s =
     (case lfoOscillatorRef s of
        None \<Rightarrow> Returns s
      | Some osc \<Rightarrow>
          if status osc = Unstarted then Throws InvalidStateError s
          else Returns (s\<lparr>audioCalls := audioCalls s @ [Stop (nodeId osc)],
                          lfoOscillatorRef := None\<rparr>))"

definition stopSound :: "LFO \<Rightarrow> Outcome" where
  "stopSound s =
     (case stopOscillator s of
        Throws e s1 \<Rightarrow> Throws e s1
      | Returns s1 \<Rightarrow>
          (case stopLfoOscillator s1 of
             Throws e s2 \<Rightarrow> Throws e s2
           | Returns s2 \<Rightarrow> Returns (s2\<lparr>isPlaying := False\<rparr>)))"

section \<open>Biquad visualizer (src/tools/BiquadVisualizer.tsx)\<close>

text \<open>
  JavaScript numbers are modelled as \<^typ>\<open>real\<close>: the arithmetic of the component is
  read as exact arithmetic, rounding of IEEE doubles is not part of the model. The step
  index, which the code only ever sets to \<open>0\<close>, to an index of \<open>steps\<close> or to
  \<open>(prev + 1) % steps.length\<close>, is a \<^typ>\<open>nat\<close>.
\<close>

subsection \<open>Demonstration constants (lines 11-17)\<close>

definition x_signal :: "real list" where
  \<comment> \<open>\<open>const x = [0, 0.5, 1.0, 0.8, 0.3, -0.2, -0.6, -0.4]\<close>\<close>
  "x_signal = [0, 0.5, 1.0, 0.8, 0.3, - 0.2, - 0.6, - 0.4]"

definition currentIndex :: nat where
  "currentIndex = 2"

definition b0 :: real where "b0 = 0.067"
definition b1 :: real where "b1 = 0.134"
definition b2 :: real where "b2 = 0.067"
definition a1 :: real where "a1 = - 1.143"
definition a2 :: real where "a2 = 0.413"

subsection \<open>Component state (lines 7-9 and 20-23)\<close>

text \<open>
  The seven \<open>useState\<close> cells of the component. \<open>x1\<close>, \<open>x2\<close>, \<open>y1\<close> and \<open>y2\<close> are
  declared as \<open>const [x1] = useState(0.5)\<close>: the setter is dropped, so no handler of the
  component can write them.
\<close>

record Biquad =
  step :: nat
  isPlaying :: bool
  speed :: nat
  x1 :: real
  x2 :: real
  y1 :: real
  y2 :: real

definition initialBiquad :: Biquad where
  "initialBiquad =
     \<lparr>step = 0, isPlaying = False, speed = 1000, x1 = 0.5, x2 = 0, y1 = 0.3, y2 = 0.1\<rparr>"

subsection \<open>The arithmetic shown in the diagram (lines 45, 51, 57 and 67)\<close>

definition feedforward :: "Biquad \<Rightarrow> real" where
  \<comment> \<open>\<open>b0*x[currentIndex] + b1*x1 + b2*x2\<close>, the value formatted in step 4\<close>
  "feedforward s = b0 * (x_signal ! currentIndex) + b1 * x1 s + b2 * x2 s"

definition feedback :: "Biquad \<Rightarrow> real" where
  \<comment> \<open>\<open>-a1*y1 - a2*y2\<close>, the value formatted in step 5\<close>
  "feedback s = - a1 * y1 s - a2 * y2 s"

definition yn :: "Biquad \<Rightarrow> real" where
  \<comment> \<open>\<open>const yn = b0*x[currentIndex] + b1*x1 + b2*x2 - a1*y1 - a2*y2\<close>\<close>
  "yn s = b0 * (x_signal ! currentIndex) + b1 * x1 s + b2 * x2 s - a1 * y1 s - a2 * y2 s"

text \<open>
  The script of seven steps. A descriptor keeps its title and its highlight target; the
  description is fixed prose and is left out, and of the optional equation string the
  model keeps the number that \<open>toFixed(3)\<close> formats on its right-hand side.
\<close>

record StepDescriptor =
  title :: string
  highlight :: string
  equation :: "real option"

definition steps :: "Biquad \<Rightarrow> StepDescriptor list" where
  "steps s =
     [\<lparr>title = ''Step 1: Input Signal'', highlight = ''input'', equation = None\<rparr>,
      \<lparr>title = ''Step 2: Store Previous Inputs'', highlight = ''delays-x'', equation = None\<rparr>,
      \<lparr>title = ''Step 3: Store Previous Outputs'', highlight = ''delays-y'', equation = None\<rparr>,
      \<lparr>title = ''Step 4: Feedforward Path'', highlight = ''feedforward'',
        equation = Some (b0 * (x_signal ! currentIndex) + b1 * x1 s + b2 * x2 s)\<rparr>,
      \<lparr>title = ''Step 5: Feedback Path'', highlight = ''feedback'',
        equation = Some (- a1 * y1 s - a2 * y2 s)\<rparr>,
      \<lparr>title = ''Step 6: Combine & Output'', highlight = ''output'',
        equation = Some (b0 * (x_signal ! currentIndex) + b1 * x1 s + b2 * x2 s
                          - a1 * y1 s - a2 * y2 s)\<rparr>,
      \<lparr>title = ''Step 7: Update State'', highlight = ''update'', equation = None\<rparr>]"

subsection \<open>Event handlers (lines 69-77, 96, 103, 111 and 125)\<close>

definition advanceStep :: "Biquad \<Rightarrow> Biquad" where
  \<comment> \<open>the interval callback \<open>setStep(prev => (prev + 1) % steps.length)\<close>\<close>
  "advanceStep s = s\<lparr>step := (step s + 1) mod length (steps s)\<rparr>"

definition timerTick :: "Biquad \<Rightarrow> Biquad" where
  \<comment> \<open>the effect installs the interval only while \<open>isPlaying\<close> holds\<close>
  "timerTick s = (if isPlaying s then advanceStep s else s)"

definition togglePlay :: "Biquad \<Rightarrow> Biquad" where
  \<comment> \<open>\<open>onClick={() => setIsPlaying(!isPlaying)}\<close>\<close>
  "togglePlay s = s\<lparr>isPlaying := \<not> isPlaying s\<rparr>"

definition reset :: "Biquad \<Rightarrow> Biquad" where
  \<comment> \<open>\<open>onClick={() => { setStep(0); setIsPlaying(false); }}\<close>\<close>
  "reset s = s\<lparr>step := 0, isPlaying := False\<rparr>"

definition selectStep :: "nat \<Rightarrow> Biquad \<Rightarrow> Biquad" where
  \<comment> \<open>\<open>onClick={() => { setStep(idx); setIsPlaying(false); }}\<close>\<close>
  "selectStep idx s = s\<lparr>step := idx, isPlaying := False\<rparr>"

definition setSpeed :: "nat \<Rightarrow> Biquad \<Rightarrow> Biquad" where
  \<comment> \<open>\<open>onChange={(e) => setSpeed(Number(e.target.value))}\<close>\<close>
  "setSpeed v s = s\<lparr>speed := v\<rparr>"

text \<open>
  The states the component can be in: the initial one, and what the handlers make of a
  reachable state. A step button exists for each index of \<open>steps\<close> only, and the
  speed selector offers 2000, 1000 and 500.
\<close>

inductive reachable :: "Biquad \<Rightarrow> bool" where
  r_init: "reachable initialBiquad"
| r_tick: "reachable s \<Longrightarrow> reachable (timerTick s)"
| r_toggle: "reachable s \<Longrightarrow> reachable (togglePlay s)"
| r_reset: "reachable s \<Longrightarrow> reachable (reset s)"
| r_select: "reachable s \<Longrightarrow> idx < length (steps s) \<Longrightarrow> reachable (selectStep idx s)"
| r_speed: "reachable s \<Longrightarrow> v \<in> {2000, 1000, 500} \<Longrightarrow> reachable (setSpeed v s)"

section \<open>Properties of the biquad visualizer\<close>

lemma length_steps: "length (steps s) = 7"
  by (simp add: steps_def)

lemma step_advanceStep: "step (advanceStep s) = (step s + 1) mod 7"
  by (simp add: advanceStep_def length_steps)

lemma reachable_step_bound: "reachable s \<Longrightarrow> step s < 7"
proof (induction rule: reachable.induct)
  case r_init
  show ?case by (simp add: initialBiquad_def)
next
  case (r_tick s)
  then show ?case by (simp add: timerTick_def step_advanceStep)
next
  case (r_toggle s)
  then show ?case by (simp add: togglePlay_def)
next
  case (r_reset s)
  show ?case by (simp add: reset_def)
next
  case (r_select s idx)
  then show ?case by (simp add: selectStep_def length_steps)
next
  case (r_speed s v)
  then show ?case by (simp add: setSpeed_def)
qed

lemma step_advanceStep_pow:
  "step ((advanceStep ^^ Suc k) s) = (step s + Suc k) mod 7"
proof (induction k)
  case 0
  show ?case by (simp add: step_advanceStep)
next
  case (Suc k)
  have "step ((advanceStep ^^ Suc (Suc k)) s) = (step ((advanceStep ^^ Suc k) s) + 1) mod 7"
    by (simp add: step_advanceStep)
  also have "\<dots> = ((step s + Suc k) mod 7 + 1) mod 7"
    by (simp only: Suc.IH)
  also have "\<dots> = (step s + Suc (Suc k)) mod 7"
    by (simp add: mod_Suc_eq)
  finally show ?case .
qed

lemma advanceStep_frame:
  "isPlaying (advanceStep s) = isPlaying s \<and> speed (advanceStep s) = speed s
   \<and> x1 (advanceStep s) = x1 s \<and> x2 (advanceStep s) = x2 s
   \<and> y1 (advanceStep s) = y1 s \<and> y2 (advanceStep s) = y2 s"
  by (simp add: advanceStep_def)

lemma handlers_keep_delay_line:
  "x1 (timerTick s) = x1 s \<and> x2 (timerTick s) = x2 s
   \<and> y1 (timerTick s) = y1 s \<and> y2 (timerTick s) = y2 s"
  "x1 (togglePlay s) = x1 s \<and> x2 (togglePlay s) = x2 s
   \<and> y1 (togglePlay s) = y1 s \<and> y2 (togglePlay s) = y2 s"
  "x1 (reset s) = x1 s \<and> x2 (reset s) = x2 s \<and> y1 (reset s) = y1 s \<and> y2 (reset s) = y2 s"
  "x1 (selectStep idx s) = x1 s \<and> x2 (selectStep idx s) = x2 s
   \<and> y1 (selectStep idx s) = y1 s \<and> y2 (selectStep idx s) = y2 s"
  "x1 (setSpeed v s) = x1 s \<and> x2 (setSpeed v s) = x2 s
   \<and> y1 (setSpeed v s) = y1 s \<and> y2 (setSpeed v s) = y2 s"
  by (simp_all add: timerTick_def advanceStep_frame togglePlay_def reset_def selectStep_def
      setSpeed_def)

text \<open>
  C4. With the coefficients and the state of the demonstration, in exact arithmetic, the
  feedforward term is 0.134, the feedback term is 0.3016 and the output \<open>yn\<close>, their
  sum, is 0.4356; these are the numbers steps 4, 5 and 6 format.
\<close>

theorem biquad_example_values:
  "b0 = 0.067 \<and> b1 = 0.134 \<and> b2 = 0.067 \<and> a1 = - 1.143 \<and> a2 = 0.413
   \<and> x_signal ! currentIndex = 1.0
   \<and> x1 initialBiquad = 0.5 \<and> x2 initialBiquad = 0
   \<and> y1 initialBiquad = 0.3 \<and> y2 initialBiquad = 0.1
   \<and> feedforward initialBiquad = 0.134
   \<and> feedback initialBiquad = 0.3016
   \<and> yn initialBiquad = 0.4356
   \<and> yn initialBiquad = feedforward initialBiquad + feedback initialBiquad
   \<and> map equation (steps initialBiquad)
       = [None, None, None, Some 0.134, Some 0.3016, Some 0.4356, None]"
  by (simp add: b0_def b1_def b2_def a1_def a2_def x_signal_def currentIndex_def
      initialBiquad_def feedforward_def feedback_def yn_def steps_def)

text \<open>
  C5. The step machine starts at step 0, not playing. The interval callback maps the
  step to \<open>(step + 1) mod 7\<close>, 7 being the length of \<open>steps\<close>; in every reachable
  state the step is one of 0..6; and from the initial state \<open>k\<close> callbacks lead to step
  \<open>k mod 7\<close>, so seven of them lead back to step 0 and no fewer do.
\<close>

theorem step_machine_cyclic:
  "step initialBiquad = 0 \<and> \<not> isPlaying initialBiquad
   \<and> (\<forall>s. length (steps s) = 7 \<and> step (advanceStep s) = (step s + 1) mod 7)
   \<and> (\<forall>s. reachable s \<longrightarrow> step s \<in> {0..6})
   \<and> step ((advanceStep ^^ 7) initialBiquad) = 0
   \<and> (\<forall>k. step ((advanceStep ^^ k) initialBiquad) = k mod 7)"
proof -
  have init: "step initialBiquad = 0" "\<not> isPlaying initialBiquad"
    by (simp_all add: initialBiquad_def)
  have bound: "\<forall>s. reachable s \<longrightarrow> step s \<in> {0..6}"
    using reachable_step_bound by fastforce
  have pow: "step ((advanceStep ^^ k) initialBiquad) = k mod 7" for k
  proof (cases k)
    case 0
    then show ?thesis by (simp add: init)
  next
    case (Suc j)
    then show ?thesis by (simp only: step_advanceStep_pow init) simp
  qed
  have seven: "step ((advanceStep ^^ 7) initialBiquad) = 0"
    by (simp only: pow) simp
  show ?thesis
    using init bound seven pow by (simp add: length_steps step_advanceStep)
qed

theorem step_machine_cyclic_witness:
  "reachable (timerTick (selectStep 6 initialBiquad))
   \<and> step (timerTick (selectStep 6 initialBiquad)) \<in> {0..6}
   \<and> step (advanceStep (selectStep 6 initialBiquad)) = 0
   \<and> step ((advanceStep ^^ 7) initialBiquad) = 0"
proof -
  have r: "reachable (timerTick (selectStep 6 initialBiquad))"
    by (intro reachable.intros) (simp add: length_steps)
  have "step (selectStep 6 initialBiquad) = 6"
    by (simp add: selectStep_def)
  with r step_machine_cyclic show ?thesis by simp
qed

text \<open>
  C10. A click on step indicator \<open>i\<close> sets the step to \<open>i\<close> and stops playing, Reset
  sets the step to 0 and stops playing, and both leave the speed as it was; the timer
  does not move the step afterwards.
\<close>

theorem manual_step_halts_playback:
  "step (selectStep i s) = i \<and> isPlaying (selectStep i s) = False
   \<and> speed (selectStep i s) = speed s
   \<and> timerTick (selectStep i s) = selectStep i s
   \<and> step (reset s) = 0 \<and> isPlaying (reset s) = False
   \<and> speed (reset s) = speed s
   \<and> timerTick (reset s) = reset s"
  by (simp add: selectStep_def reset_def timerTick_def)

text \<open>
  The delay line is static. \<open>x1\<close>, \<open>x2\<close>, \<open>y1\<close> and \<open>y2\<close> have no setter: each
  handler leaves them as they are, so in every reachable state they have their initial
  values 0.5, 0, 0.3 and 0.1. The shift of the delay line is named in the text of
  step 7 only; the component has no operation that performs it.
\<close>

lemma delay_line_static:
  assumes "reachable s"
  shows "x1 s = 0.5 \<and> x2 s = 0 \<and> y1 s = 0.3 \<and> y2 s = 0.1
     \<and> (x1 (timerTick s), x2 (timerTick s), y1 (timerTick s), y2 (timerTick s))
         = (x1 s, x2 s, y1 s, y2 s)
     \<and> (x1 (togglePlay s), x2 (togglePlay s), y1 (togglePlay s), y2 (togglePlay s))
         = (x1 s, x2 s, y1 s, y2 s)
     \<and> (x1 (reset s), x2 (reset s), y1 (reset s), y2 (reset s))
         = (x1 s, x2 s, y1 s, y2 s)
     \<and> (x1 (selectStep idx s), x2 (selectStep idx s), y1 (selectStep idx s),
          y2 (selectStep idx s))
         = (x1 s, x2 s, y1 s, y2 s)
     \<and> (x1 (setSpeed v s), x2 (setSpeed v s), y1 (setSpeed v s), y2 (setSpeed v s))
         = (x1 s, x2 s, y1 s, y2 s)"
proof -
  from assms have "x1 s = 0.5 \<and> x2 s = 0 \<and> y1 s = 0.3 \<and> y2 s = 0.1"
  proof (induction rule: reachable.induct)
    case r_init
    show ?case by (simp add: initialBiquad_def)
  qed (simp_all only: handlers_keep_delay_line)
  then show ?thesis by (simp add: handlers_keep_delay_line)
qed

section \<open>Properties of the LFO effects tool\<close>

lemma waveformLoop_map:
  "waveformLoop s w h i path = path @ map (pathCmd s w h) [i..<samples]"
proof (induction s w h i path rule: waveformLoop.induct)
  case (1 s w h i path)
  show ?case
  proof (cases "i < samples")
    case True
    then have "waveformLoop s w h i path = waveformLoop s w h (i + 1) (path @ [pathCmd s w h i])"
      by (subst waveformLoop.simps) simp
    also have "\<dots> = (path @ [pathCmd s w h i]) @ map (pathCmd s w h) [i + 1..<samples]"
      using True by (rule "1.IH")
    also have "\<dots> = path @ map (pathCmd s w h) [i..<samples]"
      using True by (simp add: upt_conv_Cons)
    finally show ?thesis .
  next
    case False
    then show ?thesis by (subst waveformLoop.simps) simp
  qed
qed

lemma drawWaveform_path:
  "has2d c \<Longrightarrow> drawWaveform (Some c) s = Some (map (pathCmd s (rectWidth c) (rectHeight c)) [0..<samples])"
  by (simp add: drawWaveform_def waveformLoop_map)

lemma duration_pos: "0 < duration s"
  by (simp add: duration_def)

lemma sampleTime_range: "i < samples \<Longrightarrow> 0 \<le> sampleTime s i \<and> sampleTime s i < duration s"
  using duration_pos [of s] by (simp add: sampleTime_def samples_def divide_simps)

lemma lfoModulator_range:
  assumes "0 \<le> depth s" "depth s \<le> 100"
  shows "0 \<le> lfoModulator s t \<and> lfoModulator s t \<le> 1"
proof -
  define d where "d = depthNorm s"
  define w where "w = (lfoWave s t + 1) / 2"
  have d: "0 \<le> d" "d \<le> 1" using assms by (simp_all add: d_def depthNorm_def)
  have "- 1 \<le> lfoWave s t" "lfoWave s t \<le> 1" by (simp_all add: lfoWave_def)
  then have w: "0 \<le> w" "w \<le> 1" by (simp_all add: w_def)
  have eq: "lfoModulator s t = 1 - d * (1 - w)"
    by (simp add: lfoModulator_def d_def w_def algebra_simps)
  have "0 \<le> d * (1 - w)" using d w by simp
  moreover have "d * (1 - w) \<le> 1 * 1" using d w by (intro mult_mono) simp_all
  ultimately show ?thesis by (simp add: eq)
qed

lemma modulated_range:
  assumes "0 \<le> depth s" "depth s \<le> 100"
  shows "\<bar>carrierWave s t * lfoModulator s t\<bar> \<le> 1"
proof -
  have m: "0 \<le> lfoModulator s t" "lfoModulator s t \<le> 1"
    using lfoModulator_range [OF assms] by simp_all
  have c: "\<bar>carrierWave s t\<bar> \<le> 1" by (simp add: carrierWave_def)
  have "\<bar>carrierWave s t * lfoModulator s t\<bar> = \<bar>carrierWave s t\<bar> * lfoModulator s t"
    using m by (simp add: abs_mult)
  also have "\<dots> \<le> 1 * 1" using m c by (intro mult_mono) simp_all
  finally show ?thesis by simp
qed


lemma nth_drawn_path:
  assumes "drawWaveform (Some c) s = Some path" "i < length path"
  shows "path ! i = pathCmd s (rectWidth c) (rectHeight c) i \<and> i < samples"
proof -
  from assms(1) have "has2d c"
    by (simp add: drawWaveform_def split: if_splits)
  with assms(1) have "path = map (pathCmd s (rectWidth c) (rectHeight c)) [0..<samples]"
    by (simp add: drawWaveform_path)
  with assms(2) show ?thesis by simp
qed

lemma cmdY_pathCmd:
  "cmdY (pathCmd s w h i)
     = centerY h - carrierWave s (sampleTime s i) * lfoModulator s (sampleTime s i) * amplitude h"
  by (simp add: pathCmd_def Let_def)

lemma cmdX_pathCmd: "cmdX (pathCmd s w h i) = (real i / real samples) * w"
  by (simp add: pathCmd_def Let_def)

text \<open>
  C1. The effect type is the tremolo one exactly when the LFO rate is below 20, the
  transition one exactly when it is at least 20 and below 50, and the ring-modulation
  one exactly when it is at least 50; rate 20 gives the transition type and rate 50 the
  ring-modulation type; and two states with the same LFO rate get the same type,
  whatever their carrier frequency and depth.
\<close>

theorem classify_by_rate:
  "(EffectInfo.type (getEffectInfo s) = ''TREMOLO EFFECT'' \<longleftrightarrow> lfoRate s < 20)
   \<and> (EffectInfo.type (getEffectInfo s) = ''TRANSITION ZONE''
        \<longleftrightarrow> 20 \<le> lfoRate s \<and> lfoRate s < 50)
   \<and> (EffectInfo.type (getEffectInfo s) = ''RING MODULATION'' \<longleftrightarrow> 50 \<le> lfoRate s)
   \<and> EffectInfo.type (getEffectInfo (s\<lparr>lfoRate := 20\<rparr>)) = ''TRANSITION ZONE''
   \<and> EffectInfo.type (getEffectInfo (s\<lparr>lfoRate := 50\<rparr>)) = ''RING MODULATION''
   \<and> (\<forall>s'. lfoRate s' = lfoRate s
          \<longrightarrow> EffectInfo.type (getEffectInfo s') = EffectInfo.type (getEffectInfo s))"
  by (simp add: getEffectInfo_def)

theorem classify_by_rate_witness:
  "lfoRate (initialLFO\<lparr>carrierFreq := 1000, depth := 0\<rparr>) = lfoRate initialLFO
   \<and> EffectInfo.type (getEffectInfo (initialLFO\<lparr>carrierFreq := 1000, depth := 0\<rparr>))
       = ''TREMOLO EFFECT''
   \<and> EffectInfo.type (getEffectInfo initialLFO) = ''TREMOLO EFFECT''"
  using classify_by_rate [of initialLFO] by (simp add: initialLFO_def)

text \<open>
  C2. On a canvas with a 2D context the waveform path has exactly 2000 points. Point
  \<open>i\<close> is taken at time \<open>(i / 2000) * duration\<close>, which is at least 0 and below the
  duration; it lies at \<open>x = (i / 2000) * width\<close>, and its \<open>y\<close> is the centre line
  minus the amplitude times the sample value, the carrier sine multiplied by the envelope
  \<open>1 - depth/100 + (depth/100) * (sin(2 pi lfoRate t) + 1) / 2\<close>. The duration is the
  one the code chooses: 1 below rate 20, 0.1 otherwise.
\<close>

theorem drawWaveform_samples:
  assumes "has2d c"
  shows "\<exists>path. drawWaveform (Some c) s = Some path \<and> length path = 2000
     \<and> (\<forall>i<2000.
          sampleTime s i = (real i / 2000) * duration s
          \<and> 0 \<le> sampleTime s i \<and> sampleTime s i < duration s
          \<and> cmdX (path ! i) = (real i / 2000) * rectWidth c
          \<and> cmdY (path ! i) = rectHeight c / 2
               - sin (2 * pi * carrierFreq s * sampleTime s i)
                 * (1 - depth s / 100
                    + (depth s / 100) * (sin (2 * pi * lfoRate s * sampleTime s i) + 1) / 2)
                 * (rectHeight c * 0.35))"
proof -
  let ?path = "map (pathCmd s (rectWidth c) (rectHeight c)) [0..<samples]"
  have draw: "drawWaveform (Some c) s = Some ?path"
    using assms by (rule drawWaveform_path)
  have len: "length ?path = 2000"
    by (simp add: samples_def)
  have point: "sampleTime s i = (real i / 2000) * duration s
      \<and> 0 \<le> sampleTime s i \<and> sampleTime s i < duration s
      \<and> cmdX (?path ! i) = (real i / 2000) * rectWidth c
      \<and> cmdY (?path ! i) = rectHeight c / 2
           - sin (2 * pi * carrierFreq s * sampleTime s i)
             * (1 - depth s / 100
                + (depth s / 100) * (sin (2 * pi * lfoRate s * sampleTime s i) + 1) / 2)
             * (rectHeight c * 0.35)" if "i < 2000" for i
  proof -
    from that have i: "i < samples" by (simp add: samples_def)
    then have nth: "?path ! i = pathCmd s (rectWidth c) (rectHeight c) i" by simp
    have t: "sampleTime s i = (real i / 2000) * duration s"
      by (simp add: sampleTime_def samples_def)
    have x: "cmdX (?path ! i) = (real i / 2000) * rectWidth c"
      by (simp only: nth cmdX_pathCmd) (simp add: samples_def)
    have y: "cmdY (?path ! i) = rectHeight c / 2
           - sin (2 * pi * carrierFreq s * sampleTime s i)
             * (1 - depth s / 100
                + (depth s / 100) * (sin (2 * pi * lfoRate s * sampleTime s i) + 1) / 2)
             * (rectHeight c * 0.35)"
      by (simp only: nth cmdY_pathCmd centerY_def amplitude_def carrierWave_def
          lfoModulator_def lfoWave_def depthNorm_def)
    from t x y sampleTime_range [OF i] show ?thesis by blast
  qed
  from draw len point show ?thesis by blast
qed

theorem drawWaveform_samples_witness:
  "has2d \<lparr>rectWidth = 800, rectHeight = 200, has2d = True\<rparr>
   \<and> (\<exists>path. drawWaveform (Some \<lparr>rectWidth = 800, rectHeight = 200, has2d = True\<rparr>) initialLFO
                 = Some path
        \<and> length path = 2000
        \<and> sampleTime initialLFO 500 = 0.25
        \<and> cmdX (path ! 500) = 200
        \<and> cmdY (path ! 0) = 100)"
proof -
  have h: "has2d \<lparr>rectWidth = 800, rectHeight = 200, has2d = True\<rparr>" by simp
  from drawWaveform_samples [OF h, of initialLFO]
  obtain path where p: "drawWaveform (Some \<lparr>rectWidth = 800, rectHeight = 200, has2d = True\<rparr>)
        initialLFO = Some path" "length path = 2000"
    and pts: "\<forall>i<2000. sampleTime initialLFO i = (real i / 2000) * duration initialLFO
        \<and> cmdX (path ! i) = (real i / 2000) * 800
        \<and> cmdY (path ! i) = 200 / 2
             - sin (2 * pi * carrierFreq initialLFO * sampleTime initialLFO i)
               * (1 - depth initialLFO / 100
                  + (depth initialLFO / 100)
                    * (sin (2 * pi * lfoRate initialLFO * sampleTime initialLFO i) + 1) / 2)
               * (200 * 0.35)"
    by auto
  have "(500::nat) < 2000" by simp
  from pts [rule_format, OF this]
  have a: "sampleTime initialLFO 500 = 0.25" "cmdX (path ! 500) = 200"
    by (simp_all add: duration_def initialLFO_def)
  have "(0::nat) < 2000" by simp
  from pts [rule_format, OF this]
  have b: "cmdY (path ! 0) = 100" by simp
  from h p a b show ?thesis by blast
qed


text \<open>
  C3. With the depth between 0 and 100, the sample value, carrier times envelope, lies
  between -1 and 1 at every time, and so at every sampled time: each point of a drawn
  path is the centre line minus the amplitude times such a value.
\<close>

theorem waveform_bounded:
  assumes "0 \<le> depth s" "depth s \<le> 100"
  shows "(\<forall>t. - 1 \<le> carrierWave s t * lfoModulator s t
              \<and> carrierWave s t * lfoModulator s t \<le> 1)
     \<and> (\<forall>c path i. drawWaveform (Some c) s = Some path \<and> i < length path
          \<longrightarrow> (\<exists>v. - 1 \<le> v \<and> v \<le> 1
                 \<and> v = carrierWave s (sampleTime s i) * lfoModulator s (sampleTime s i)
                 \<and> cmdY (path ! i)
                     = centerY (rectHeight c) - v * amplitude (rectHeight c)))"
proof -
  have bound: "- 1 \<le> carrierWave s t * lfoModulator s t
               \<and> carrierWave s t * lfoModulator s t \<le> 1" for t
    using modulated_range [OF assms, of t] by (simp add: abs_le_iff)
  have drawn: "\<exists>v. - 1 \<le> v \<and> v \<le> 1
        \<and> v = carrierWave s (sampleTime s i) * lfoModulator s (sampleTime s i)
        \<and> cmdY (path ! i) = centerY (rectHeight c) - v * amplitude (rectHeight c)"
    if "drawWaveform (Some c) s = Some path" "i < length path" for c path i
  proof -
    from nth_drawn_path [OF that]
    have "cmdY (path ! i) = centerY (rectHeight c)
        - carrierWave s (sampleTime s i) * lfoModulator s (sampleTime s i)
          * amplitude (rectHeight c)"
      by (simp only: cmdY_pathCmd)
    with bound [of "sampleTime s i"] show ?thesis by blast
  qed
  from bound drawn show ?thesis by blast
qed

theorem waveform_bounded_witness:
  "0 \<le> depth initialLFO \<and> depth initialLFO \<le> 100
   \<and> - 1 \<le> carrierWave initialLFO (sampleTime initialLFO 100)
              * lfoModulator initialLFO (sampleTime initialLFO 100)
   \<and> carrierWave initialLFO (sampleTime initialLFO 100)
       * lfoModulator initialLFO (sampleTime initialLFO 100) \<le> 1"
proof -
  have d: "0 \<le> depth initialLFO" "depth initialLFO \<le> 100"
    by (simp_all add: initialLFO_def)
  from waveform_bounded [OF d] d show ?thesis by blast
qed

text \<open>
  C6. With depth 0 the envelope is 1 at every time and the sample value is the carrier
  sine \<open>sin(2 pi carrierFreq t)\<close> alone, for every carrier frequency; the drawn path
  is that of the unmodulated carrier.
\<close>

theorem zero_depth_pure_carrier:
  assumes "depth s = 0"
  shows "(\<forall>t. lfoModulator s t = 1
              \<and> carrierWave s t * lfoModulator s t = sin (2 * pi * carrierFreq s * t))
     \<and> (\<forall>c path i. drawWaveform (Some c) s = Some path \<and> i < length path
          \<longrightarrow> cmdY (path ! i)
               = centerY (rectHeight c)
                 - sin (2 * pi * carrierFreq s * sampleTime s i) * amplitude (rectHeight c))"
proof -
  have env: "lfoModulator s t = 1" for t
    using assms by (simp add: lfoModulator_def depthNorm_def)
  have drawn: "cmdY (path ! i) = centerY (rectHeight c)
        - sin (2 * pi * carrierFreq s * sampleTime s i) * amplitude (rectHeight c)"
    if "drawWaveform (Some c) s = Some path" "i < length path" for c path i
    using nth_drawn_path [OF that] by (simp add: cmdY_pathCmd env carrierWave_def)
  from env drawn show ?thesis by (simp add: carrierWave_def)
qed

theorem zero_depth_pure_carrier_witness:
  "depth (initialLFO\<lparr>depth := 0\<rparr>) = 0
   \<and> lfoModulator (initialLFO\<lparr>depth := 0\<rparr>) (1 / 1760) = 1
   \<and> carrierWave (initialLFO\<lparr>depth := 0\<rparr>) (1 / 1760)
       * lfoModulator (initialLFO\<lparr>depth := 0\<rparr>) (1 / 1760) = 1"
proof -
  let ?s = "initialLFO\<lparr>depth := 0\<rparr>"
  have d: "depth ?s = 0" by simp
  from zero_depth_pure_carrier [OF d]
  have e: "lfoModulator ?s (1 / 1760) = 1"
    "carrierWave ?s (1 / 1760) * lfoModulator ?s (1 / 1760)
       = sin (2 * pi * carrierFreq ?s * (1 / 1760))"
    by blast+
  have "2 * pi * carrierFreq ?s * (1 / 1760) = pi / 2"
    by (simp add: initialLFO_def)
  then have "sin (2 * pi * carrierFreq ?s * (1 / 1760)) = 1"
    by (simp only: sin_pi_half)
  with d e show ?thesis by (simp only:)
qed

lemma stopOscillator_Returns:
  "stopOscillator s = Returns s1 \<Longrightarrow>
     oscillatorRef s1 = None \<and> lfoOscillatorRef s1 = lfoOscillatorRef s"
  by (auto simp: stopOscillator_def split: option.splits if_splits)

lemma stopLfoOscillator_Returns:
  "stopLfoOscillator s = Returns s1 \<Longrightarrow>
     lfoOscillatorRef s1 = None \<and> oscillatorRef s1 = oscillatorRef s"
  by (auto simp: stopLfoOscillator_def split: option.splits if_splits)

lemma stopSound_Returns:
  assumes "stopSound s = Returns s'"
  shows "oscillatorRef s' = None \<and> lfoOscillatorRef s' = None \<and> \<not> LFO.isPlaying s'"
proof -
  from assms obtain s1 s2 where
    a: "stopOscillator s = Returns s1" and b: "stopLfoOscillator s1 = Returns s2"
    and c: "s' = s2\<lparr>LFO.isPlaying := False\<rparr>"
    by (auto simp: stopSound_def split: Outcome.splits)
  from stopOscillator_Returns [OF a] stopLfoOscillator_Returns [OF b] c
  show ?thesis by simp
qed

lemma stopSound_stopped:
  assumes "oscillatorRef s = None" "lfoOscillatorRef s = None" "\<not> LFO.isPlaying s"
  shows "stopSound s = Returns s"
  using assms by (simp add: stopSound_def stopOscillator_def stopLfoOscillator_def)

text \<open>
  C8. When \<open>stopSound\<close> has returned, both oscillator refs are null and \<open>isPlaying\<close>
  is false, and a second \<open>stopSound\<close> returns without throwing and with the state
  unchanged: no further call reaches the audio graph.
\<close>

theorem stop_after_stop_noop:
  assumes "stopSound s = Returns s'"
  shows "stopSound s' = Returns s'
     \<and> oscillatorRef s' = None \<and> lfoOscillatorRef s' = None \<and> \<not> LFO.isPlaying s'"
  using stopSound_Returns [OF assms] by (simp add: stopSound_stopped)

lemma played_state:
  "playSound \<lparr>audioAvailable = True, newContextState = Suspended, resumeOk = True\<rparr> initialLFO
     = Returns (startGraph (initialLFO\<lparr>audioCalls := [Resume]\<rparr>) \<lparr>state = Running, nodes = 0\<rparr>)"
  by (simp add: playSound_def playSoundStart_def resumeOrStart_def playSoundResumed_def
      startGraph_def buildGraph_def Let_def initialLFO_def)

theorem stop_after_stop_noop_witness:
  "stopSound (stateOf (playSound
       \<lparr>audioAvailable = True, newContextState = Suspended, resumeOk = True\<rparr> initialLFO))
     = Returns (startGraph (initialLFO\<lparr>audioCalls := [Resume]\<rparr>) \<lparr>state = Running, nodes = 0\<rparr>
         \<lparr>oscillatorRef := None, lfoOscillatorRef := None, LFO.isPlaying := False,
          audioCalls := [Resume, Connect 1 (ToNode 3), Connect 3 (ToGainParam 2),
                         Connect 0 (ToNode 2), Connect 2 ToDestination, Start 0, Start 1,
                         Stop 0, Stop 1]\<rparr>)
   \<and> stopSound (stateOf (stopSound (stateOf (playSound
       \<lparr>audioAvailable = True, newContextState = Suspended, resumeOk = True\<rparr> initialLFO))))
     = stopSound (stateOf (playSound
       \<lparr>audioAvailable = True, newContextState = Suspended, resumeOk = True\<rparr> initialLFO))"
proof -
  let ?s = "stateOf (playSound
       \<lparr>audioAvailable = True, newContextState = Suspended, resumeOk = True\<rparr> initialLFO)"
  let ?s' = "startGraph (initialLFO\<lparr>audioCalls := [Resume]\<rparr>) \<lparr>state = Running, nodes = 0\<rparr>
         \<lparr>oscillatorRef := None, lfoOscillatorRef := None, LFO.isPlaying := False,
          audioCalls := [Resume, Connect 1 (ToNode 3), Connect 3 (ToGainParam 2),
                         Connect 0 (ToNode 2), Connect 2 ToDestination, Start 0, Start 1,
                         Stop 0, Stop 1]\<rparr>"
  have first: "stopSound ?s = Returns ?s'"
    by (simp only: played_state stateOf.simps)
      (simp add: stopSound_def stopOscillator_def stopLfoOscillator_def
        startGraph_def buildGraph_def Let_def initialLFO_def)
  from stop_after_stop_noop [OF first] first show ?thesis by simp
qed

text \<open>
  C9. While \<open>isPlaying\<close> holds, \<open>playSound\<close> returns at once: the state, with its
  refs and the record of calls on the audio graph, is unchanged, in every environment.
\<close>

theorem play_while_playing_noop:
  assumes "LFO.isPlaying s"
  shows "playSound env s = Returns s"
  using assms by (simp add: playSound_def playSoundStart_def)

theorem play_while_playing_noop_witness:
  "LFO.isPlaying (stateOf (playSound
       \<lparr>audioAvailable = True, newContextState = Suspended, resumeOk = True\<rparr> initialLFO))
   \<and> playSound \<lparr>audioAvailable = True, newContextState = Running, resumeOk = True\<rparr>
       (stateOf (playSound
          \<lparr>audioAvailable = True, newContextState = Suspended, resumeOk = True\<rparr> initialLFO))
     = Returns (stateOf (playSound
          \<lparr>audioAvailable = True, newContextState = Suspended, resumeOk = True\<rparr> initialLFO))"
proof -
  have p: "LFO.isPlaying (stateOf (playSound
       \<lparr>audioAvailable = True, newContextState = Suspended, resumeOk = True\<rparr> initialLFO))"
    by (simp only: played_state stateOf.simps)
      (simp add: startGraph_def buildGraph_def Let_def)
  from play_while_playing_noop [OF p] p show ?thesis by simp
qed

subsection \<open>\<open>playSound\<close> across the \<open>await\<close>\<close>

text \<open>
  A rejected \<open>resume()\<close> ends the call with the context created and the \<open>resume()\<close>
  call made, and with nothing else changed.
\<close>

lemma rejected_resume:
  "playSound \<lparr>audioAvailable = True, newContextState = Suspended, resumeOk = False\<rparr> initialLFO
     = Throws ResumeRejected
         (initialLFO\<lparr>audioContextRef := Some \<lparr>state = Suspended, nodes = 0\<rparr>,
                      audioCalls := [Resume]\<rparr>)"
  by (simp add: playSound_def playSoundStart_def resumeOrStart_def playSoundResumed_def
      initialLFO_def)

text \<open>
  Two calls that overlap: the second starts while the first waits for \<open>resume()\<close>, so
  \<open>isPlaying\<close> is still false and the guard lets it pass. Each call then builds a graph
  of its own; the refs hold the second one, and \<open>stopSound\<close> stops oscillators 4 and 5
  only, while oscillators 0 and 1 of the first graph keep running.
\<close>

lemma overlapping_playSound:
  fixes env :: AudioEnv and a1 a2 g1 g2 :: LFO
  defines "env \<equiv> \<lparr>audioAvailable = True, newContextState = Suspended, resumeOk = True\<rparr>"
    and "a1 \<equiv> initialLFO\<lparr>audioContextRef := Some \<lparr>state = Suspended, nodes = 0\<rparr>,
                          audioCalls := [Resume]\<rparr>"
    and "a2 \<equiv> a1\<lparr>audioCalls := [Resume, Resume]\<rparr>"
    and "g1 \<equiv> stateOf (playSoundResumed env initialLFO a2)"
    and "g2 \<equiv> stateOf (playSoundResumed env a1 g1)"
  shows "playSoundStart env initialLFO = Awaiting a1"
    and "playSoundStart env a1 = Awaiting a2"
    and "audioContextRef g2 = Some \<lparr>state = Running, nodes = 8\<rparr>"
    and "map_option nodeId (oscillatorRef g2) = Some 4"
    and "map_option nodeId (lfoOscillatorRef g2) = Some 5"
    and "audioCalls (stateOf (stopSound g2))
           = [Resume, Resume,
              Connect 1 (ToNode 3), Connect 3 (ToGainParam 2), Connect 0 (ToNode 2),
              Connect 2 ToDestination, Start 0, Start 1,
              Connect 5 (ToNode 7), Connect 7 (ToGainParam 6), Connect 4 (ToNode 6),
              Connect 6 ToDestination, Start 4, Start 5,
              Stop 4, Stop 5]"
  by (simp_all add: env_def a1_def a2_def g1_def g2_def playSoundStart_def resumeOrStart_def
      playSoundResumed_def buildGraph_def Let_def initialLFO_def stopSound_def
      stopOscillator_def stopLfoOscillator_def)

end
